theory Spec2Isabelle
  imports Main
begin

section \<open>JavaScript values and errors\<close>

text \<open>
  The wrappers of \<^verbatim>\<open>src/ledger/index.js\<close> and of the provider module take untyped
  JavaScript arguments, so arguments are values of \<open>jsval\<close>. Numbers are the integers
  (chain ids, coin types and address counts are integers; fractions and NaN are not
  represented). An object is its property table, read from the front.
  A thrown value is an \<open>Error\<close> object: a class and the string of its \<open>message\<close>
  property, which is what the catch block of \<open>open\<close> reads.
\<close>

datatype jsval =
    JUndefined
  | JNull
  | JBool bool
  | JNum int
  | JStr string
  | JArr "jsval list"
  | JObj "(string \<times> jsval) list"

datatype error_class = ValidationError | TypeError | Error

datatype js_error = JsError (error_class: error_class) (message: string)

text \<open>Truthiness, as \<^verbatim>\<open>if (v)\<close> and \<^verbatim>\<open>!v\<close> decide it.\<close>

fun truthy :: "jsval \<Rightarrow> bool" where
  "truthy JUndefined = False"
| "truthy JNull = False"
| "truthy (JBool b) = b"
| "truthy (JNum n) = (n \<noteq> 0)"
| "truthy (JStr s) = (s \<noteq> [])"
| "truthy (JArr _) = True"
| "truthy (JObj _) = True"

text \<open>
  Reading a property \<^verbatim>\<open>v.k\<close>: a TypeError on \<^verbatim>\<open>undefined\<close> and \<^verbatim>\<open>null\<close>, the
  property's value on an object that has it, \<^verbatim>\<open>undefined\<close> otherwise (the keys read
  in this development are not properties of the built-in prototypes).
\<close>

fun get_prop :: "jsval \<Rightarrow> string \<Rightarrow> js_error + jsval" where
  "get_prop JUndefined k = Inl (JsError TypeError ''Cannot read property of undefined'')"
| "get_prop JNull k = Inl (JsError TypeError ''Cannot read property of null'')"
| "get_prop (JObj ps) k = Inr (case map_of ps k of None \<Rightarrow> JUndefined | Some v \<Rightarrow> v)"
| "get_prop _ k = Inr JUndefined"

text \<open>A default in a parameter list or in a destructuring pattern replaces \<^verbatim>\<open>undefined\<close> only.\<close>

definition with_default :: "jsval \<Rightarrow> jsval \<Rightarrow> jsval" where
  "with_default v d = (if v = JUndefined then d else v)"

section \<open>The Ledger wallet: \<open>open\<close>\<close>

record address_response =
  publicKey :: string
  chainCode :: string

record ledger_instance =
  getAddress :: "string \<Rightarrow> bool \<Rightarrow> bool \<Rightarrow> js_error + address_response"

record wallet_args =
  args_publicKey :: string
  args_chainCode :: string
  args_rootDerivationPath :: string
  args_addressCount :: jsval
  args_chainId :: jsval

text \<open>
  What \<open>open\<close> imports and does not define: the constants of \<^verbatim>\<open>core/defaults\<close>
  (\<open>NETWORK_IDS.HOMESTEAD\<close>, \<open>PATH.COIN_MAINNET\<close>, \<open>PATH.COIN_TESTNET\<close>), the message
  \<open>userExportGenericError\<close>, the helpers \<open>userInputValidator\<close>,
  \<open>derivationPathSerializer\<close>, \<open>ledgerConnection\<close>, \<open>handleLedgerConnectionError\<close> and
  the class \<open>LedgerWallet\<close>. They are parameters of the model; each helper either
  returns or throws. \<open>ledgerConnection\<close> is the outcome of connecting to the device in
  this run.
\<close>

record 'w ledger_env =
  HOMESTEAD :: int
  COIN_MAINNET :: int
  COIN_TESTNET :: int
  userExportGenericError :: string
  userInputValidator :: "jsval \<Rightarrow> js_error + unit"
  derivationPathSerializer :: "int \<Rightarrow> js_error + string"
  ledgerConnection :: "js_error + ledger_instance"
  handleLedgerConnectionError :: "js_error \<Rightarrow> string \<Rightarrow> js_error + jsval"
  LedgerWallet :: "wallet_args \<Rightarrow> js_error + 'w"

text \<open>The calls \<open>open\<close> makes, in the order it makes them.\<close>

datatype event =
    EvValidate jsval
  | EvSerialize int
  | EvConnect
  | EvGetAddress string bool bool
  | EvConstruct wallet_args
  | EvHandleError js_error string

text \<open>
  The promise \<open>open\<close> returns resolves with the wallet instance or with what the
  error handler returned, or rejects with an error.
\<close>

datatype 'w open_result = Wallet 'w | Handled jsval

text \<open>
  \<^verbatim>\<open>const { addressCount, chainId = NETWORK_IDS.HOMESTEAD } = argumentObject;\<close>
\<close>

definition destructure_arguments :: "'w ledger_env \<Rightarrow> jsval \<Rightarrow> js_error + (jsval \<times> jsval)" where
  "destructure_arguments env argumentObject =
     (case get_prop argumentObject ''addressCount'' of
        Inl e \<Rightarrow> Inl e
      | Inr addressCount \<Rightarrow>
          (case get_prop argumentObject ''chainId'' of
             Inl e \<Rightarrow> Inl e
           | Inr chainId \<Rightarrow> Inr (addressCount, with_default chainId (JNum (HOMESTEAD env)))))"

text \<open>
  \<^verbatim>\<open>chainId === NETWORK_IDS.HOMESTEAD ? PATH.COIN_MAINNET : PATH.COIN_TESTNET\<close>:
  strict equality with a number holds for that number only.
\<close>

definition coinType :: "'w ledger_env \<Rightarrow> jsval \<Rightarrow> int" where
  "coinType env chainId =
     (if chainId = JNum (HOMESTEAD env) then COIN_MAINNET env else COIN_TESTNET env)"

text \<open>The body of the \<^verbatim>\<open>try\<close> block: connect, ask for the root key, build the wallet.\<close>

definition open_try :: "'w ledger_env \<Rightarrow> string \<Rightarrow> jsval \<Rightarrow> jsval \<Rightarrow> (js_error + 'w) \<times> event list" where
  "open_try env rootDerivationPath addressCount chainId =
     (case ledgerConnection env of
        Inl e \<Rightarrow> (Inl e, [EvConnect])
      | Inr ledger \<Rightarrow>
          (case getAddress ledger rootDerivationPath False True of
             Inl e \<Rightarrow> (Inl e, [EvConnect, EvGetAddress rootDerivationPath False True])
           | Inr response \<Rightarrow>
               (let args = \<lparr> args_publicKey = publicKey response,
                             args_chainCode = chainCode response,
                             args_rootDerivationPath = rootDerivationPath,
                             args_addressCount = addressCount,
                             args_chainId = chainId \<rparr>
                in (LedgerWallet env args,
                    [EvConnect, EvGetAddress rootDerivationPath False True, EvConstruct args]))))"

text \<open>
  The message of the \<^verbatim>\<open>catch\<close> block:
  \<^verbatim>\<open>`${messages.userExportGenericError}: ${rootDerivationPath} ${caughtError.message}`\<close>
\<close>

definition catch_message :: "'w ledger_env \<Rightarrow> string \<Rightarrow> js_error \<Rightarrow> string" where
  "catch_message env rootDerivationPath caughtError =
     userExportGenericError env @ '': '' @ rootDerivationPath @ '' '' @ message caughtError"

definition open_catch :: "'w ledger_env \<Rightarrow> string \<Rightarrow> js_error \<Rightarrow> (js_error + 'w open_result) \<times> event list" where
  "open_catch env rootDerivationPath caughtError =
     (let specificMessage = catch_message env rootDerivationPath caughtError
      in (case handleLedgerConnectionError env caughtError specificMessage of
            Inl e \<Rightarrow> Inl e
          | Inr v \<Rightarrow> Inr (Handled v),
          [EvHandleError caughtError specificMessage]))"

text \<open>
  \<open>ledgerWallet.open\<close>. The result is the outcome of the returned promise (\<open>Inl\<close>: it
  rejects) and the calls made. The validator, the destructuring and the serializer run
  before the \<^verbatim>\<open>try\<close> block, so what they throw rejects the promise.
\<close>

definition ledgerWallet_open :: "'w ledger_env \<Rightarrow> jsval \<Rightarrow> (js_error + 'w open_result) \<times> event list" where
  "ledgerWallet_open env argument =
     (let argumentObject = with_default argument (JObj [])
      in case userInputValidator env argumentObject of
           Inl e \<Rightarrow> (Inl e, [EvValidate argumentObject])
         | Inr _ \<Rightarrow>
             (case destructure_arguments env argumentObject of
                Inl e \<Rightarrow> (Inl e, [EvValidate argumentObject])
              | Inr (addressCount, chainId) \<Rightarrow>
                  (case derivationPathSerializer env (coinType env chainId) of
                     Inl e \<Rightarrow> (Inl e, [EvValidate argumentObject, EvSerialize (coinType env chainId)])
                   | Inr rootDerivationPath \<Rightarrow>
                       (case open_try env rootDerivationPath addressCount chainId of
                          (Inr walletInstance, calls) \<Rightarrow>
                            (Inr (Wallet walletInstance),
                             [EvValidate argumentObject, EvSerialize (coinType env chainId)] @ calls)
                        | (Inl caughtError, calls) \<Rightarrow>
                            (case open_catch env rootDerivationPath caughtError of
                               (outcome, handled) \<Rightarrow>
                                 (outcome,
                                  [EvValidate argumentObject, EvSerialize (coinType env chainId)]
                                    @ calls @ handled))))))"

section \<open>Helpers of the repository that \<open>open\<close> imports\<close>

text \<open>
  The checks of a validator: an object is neither \<^verbatim>\<open>null\<close> nor an array nor a
  primitive; \<open>field_of\<close> reads a field, \<^verbatim>\<open>undefined\<close> when there is none.
\<close>

fun is_object :: "jsval \<Rightarrow> bool" where
  "is_object (JObj _) = True"
| "is_object _ = False"

fun is_non_negative_integer :: "jsval \<Rightarrow> bool" where
  "is_non_negative_integer (JNum n) = (0 \<le> n)"
| "is_non_negative_integer _ = False"

fun is_positive_integer :: "jsval \<Rightarrow> bool" where
  "is_positive_integer (JNum n) = (0 < n)"
| "is_positive_integer _ = False"

definition field_of :: "jsval \<Rightarrow> string \<Rightarrow> jsval" where
  "field_of v k = (case get_prop v k of Inl _ \<Rightarrow> JUndefined | Inr x \<Rightarrow> x)"

text \<open>
  Modelled from the spec: \<open>userInputValidator\<close> of \<^verbatim>\<open>core/helpers\<close>, which is not
  among the sources. The spec's contract (4.1): the argument is an object (not null, an
  array or a primitive) and every recognised field that is present has its type,
  \<open>addressCount\<close> a non-negative integer and \<open>chainId\<close> a positive integer; otherwise
  a ValidationError naming the offending field. Both fields are optional in the spec's
  data model; a field is present when reading it gives something other than
  \<^verbatim>\<open>undefined\<close>.
\<close>

definition core_userInputValidator :: "jsval \<Rightarrow> js_error + unit" where
  "core_userInputValidator firstArgument =
     (if \<not> is_object firstArgument then Inl (JsError ValidationError ''firstArgument'')
      else if field_of firstArgument ''addressCount'' \<noteq> JUndefined
              \<and> \<not> is_non_negative_integer (field_of firstArgument ''addressCount'')
        then Inl (JsError ValidationError ''addressCount'')
      else if field_of firstArgument ''chainId'' \<noteq> JUndefined
              \<and> \<not> is_positive_integer (field_of firstArgument ''chainId'')
        then Inl (JsError ValidationError ''chainId'')
      else Inr ())"

text \<open>Decimal digits of a natural number, as a template literal prints it.\<close>

definition digit_char :: "nat \<Rightarrow> char" where
  "digit_char d = ''0123456789'' ! (d mod 10)"

function string_of_nat :: "nat \<Rightarrow> string" where
  "string_of_nat n =
     (if n < 10 then [digit_char n] else string_of_nat (n div 10) @ [digit_char (n mod 10)])"
  by pat_completeness auto
termination
  by (relation "measure (\<lambda>n. n)") auto

declare string_of_nat.simps [simp del]

text \<open>
  Modelled from the spec: \<open>derivationPathSerializer\<close> of \<^verbatim>\<open>core/helpers\<close>, which is
  not among the sources. The spec's contract (4.2): from the coin type, the root path
  \<^verbatim>\<open>m/44'/<coinType>'/0'\<close>; a ValidationError on malformed numeric input, which for
  an integer is a negative one.
\<close>

definition core_derivationPathSerializer :: "int \<Rightarrow> js_error + string" where
  "core_derivationPathSerializer c =
     (if c < 0 then Inl (JsError ValidationError ''coinType'')
      else Inr (''m/44'' @ [CHR 0x27] @ ''/'' @ string_of_nat (nat c) @ [CHR 0x27] @ ''/0'' @ [CHR 0x27]))"

text \<open>
  The wallet of the spec's data model: the key material, the root path, the derived
  addresses in order and the chain id. A derived address records its child index and
  its path.
\<close>

record 'a derived_address =
  address_index :: nat
  address_path :: string
  address_value :: 'a

record 'a wallet =
  wallet_publicKey :: string
  wallet_chainCode :: string
  wallet_rootDerivationPath :: string
  wallet_addresses :: "'a derived_address list"
  wallet_chainId :: jsval

text \<open>
  Modelled from the spec: the derivation of one address in the constructor of
  \<open>LedgerWallet\<close> (\<^verbatim>\<open>ledger/class\<close>, not among the sources). The spec's contract
  (4.4): the full path is \<^verbatim>\<open>rootDerivationPath/0/i\<close>, and the address comes from an
  external child-key derivation, here the parameter \<open>derive\<close> (public key, chain code,
  path).
\<close>

definition derive_address :: "(string \<Rightarrow> string \<Rightarrow> string \<Rightarrow> 'a) \<Rightarrow> string \<Rightarrow> string \<Rightarrow> string \<Rightarrow> nat \<Rightarrow> 'a derived_address" where
  "derive_address derive pk cc rootDerivationPath i =
     (let path = rootDerivationPath @ ''/0/'' @ string_of_nat i
      in \<lparr> address_index = i, address_path = path, address_value = derive pk cc path \<rparr>)"

text \<open>
  Modelled from the spec: the loop of that constructor, \<open>i\<close> running from its start
  up to \<open>addressCount - 1\<close> (4.4: for \<open>i\<close> in \<open>0..addressCount-1\<close>).
\<close>

function derive_addresses :: "(string \<Rightarrow> string \<Rightarrow> string \<Rightarrow> 'a) \<Rightarrow> string \<Rightarrow> string \<Rightarrow> string \<Rightarrow> nat \<Rightarrow> nat \<Rightarrow> 'a derived_address list" where
  "derive_addresses derive pk cc rootDerivationPath i addressCount =
     (if i < addressCount
      then derive_address derive pk cc rootDerivationPath i
             # derive_addresses derive pk cc rootDerivationPath (Suc i) addressCount
      else [])"
  by pat_completeness auto
termination
  by (relation "measure (\<lambda>(derive, pk, cc, root, i, n). n - i)") auto

declare derive_addresses.simps [simp del]

text \<open>
  Modelled from the spec: the constructor of the class \<open>LedgerWallet\<close>
  (\<^verbatim>\<open>ledger/class\<close>, not among the sources). The spec's contract (4.4) and data
  model: from the public key, the chain code, the root path, the address count and the
  chain id, the wallet with the addresses of the indices from \<open>0\<close>, derived at
  construction. The spec defines the constructor for a non-negative integer
  \<open>addressCount\<close>, so the count is a \<open>nat\<close>.
\<close>

definition LedgerWallet_class :: "(string \<Rightarrow> string \<Rightarrow> string \<Rightarrow> 'a) \<Rightarrow> string \<Rightarrow> string \<Rightarrow> string \<Rightarrow> nat \<Rightarrow> jsval \<Rightarrow> 'a wallet" where
  "LedgerWallet_class derive pk cc rootDerivationPath addressCount chainId =
     \<lparr> wallet_publicKey = pk,
       wallet_chainCode = cc,
       wallet_rootDerivationPath = rootDerivationPath,
       wallet_addresses = derive_addresses derive pk cc rootDerivationPath 0 addressCount,
       wallet_chainId = chainId \<rparr>"

section \<open>The provider constructors\<close>

text \<open>
  The second source file wraps the provider classes of \<open>ethers\<close>. The classes, the
  default constants, the message tables and \<^verbatim>\<open>global.web3\<close> are parameters. A
  constructor is called on its argument list, so the call with an api key and the call
  without one are told apart. \<open>warn\<close> and \<open>error\<close> of \<^verbatim>\<open>./utils\<close> are loggers: a
  call is an entry in the log.
\<close>

record 'p providers_env =
  EtherscanProvider :: "jsval list \<Rightarrow> js_error + 'p"
  InfuraProvider :: "jsval list \<Rightarrow> js_error + 'p"
  Web3Provider :: "jsval list \<Rightarrow> js_error + 'p"
  JsonRpcProvider :: "jsval list \<Rightarrow> js_error + 'p"
  DEFAULT_NETWORK :: string
  LOCALPROVIDER_PROTOCOL :: string
  LOCALPROVIDER_HOST :: string
  LOCALPROVIDER_PORT :: string
  warnings_etherscan_apiKey :: string
  warnings_infura_apiKey :: string
  warnings_metamask_notAvailable :: string
  errors_etherscan_connect :: string
  errors_infura_connect :: string
  errors_metamask_connect :: string
  errors_localhost_connect :: string
  global_web3 :: jsval

datatype provider_class = Etherscan | Infura | Web3 | JsonRpc

datatype log_entry =
    New provider_class "jsval list"
  | Warn string
  | LogError string "jsval list" js_error

text \<open>\<^verbatim>\<open>let provider = {}\<close>: the empty object, or an instance of a provider class.\<close>

datatype 'p provider = EmptyObject | ProviderObject 'p

text \<open>
  A \<^verbatim>\<open>try\<close> block ends with the value of \<open>provider\<close> and, when it threw, the error
  thrown.
\<close>

type_synonym 'p try_result = "(js_error option \<times> 'p provider) \<times> log_entry list"

definition etherscan_try :: "'p providers_env \<Rightarrow> jsval \<Rightarrow> jsval \<Rightarrow> 'p try_result" where
  "etherscan_try env network apiKey =
     (case (if truthy apiKey
            then (case EtherscanProvider env [network, apiKey] of
                    Inl e \<Rightarrow> ((Some e, EmptyObject), [New Etherscan [network, apiKey]])
                  | Inr p \<Rightarrow> ((None, ProviderObject p), [New Etherscan [network, apiKey]]))
            else ((None, EmptyObject), [])) of
        ((Some e, provider), log) \<Rightarrow> ((Some e, provider), log)
      | ((None, provider), log) \<Rightarrow>
          (case EtherscanProvider env [network] of
             Inl e \<Rightarrow>
               ((Some e, provider),
                log @ [Warn (warnings_etherscan_apiKey env), New Etherscan [network]])
           | Inr p \<Rightarrow>
               ((None, ProviderObject p),
                log @ [Warn (warnings_etherscan_apiKey env), New Etherscan [network]])))"

definition etherscan :: "'p providers_env \<Rightarrow> jsval \<Rightarrow> jsval \<Rightarrow> (js_error + 'p provider) \<times> log_entry list" where
  "etherscan env network_arg apiKey =
     (let network = with_default network_arg (JStr (DEFAULT_NETWORK env))
      in case etherscan_try env network apiKey of
           ((None, provider), log) \<Rightarrow> (Inr provider, log)
         | ((Some err, provider), log) \<Rightarrow>
             (Inr provider, log @ [LogError (errors_etherscan_connect env) [network, apiKey] err]))"

definition infura_try :: "'p providers_env \<Rightarrow> jsval \<Rightarrow> jsval \<Rightarrow> 'p try_result" where
  "infura_try env network apiKey =
     (case (if truthy apiKey
            then (case InfuraProvider env [network, apiKey] of
                    Inl e \<Rightarrow> ((Some e, EmptyObject), [New Infura [network, apiKey]])
                  | Inr p \<Rightarrow> ((None, ProviderObject p), [New Infura [network, apiKey]]))
            else ((None, EmptyObject), [])) of
        ((Some e, provider), log) \<Rightarrow> ((Some e, provider), log)
      | ((None, provider), log) \<Rightarrow>
          (case InfuraProvider env [network] of
             Inl e \<Rightarrow>
               ((Some e, provider),
                log @ [Warn (warnings_infura_apiKey env), New Infura [network]])
           | Inr p \<Rightarrow>
               ((None, ProviderObject p),
                log @ [Warn (warnings_infura_apiKey env), New Infura [network]])))"

definition infura :: "'p providers_env \<Rightarrow> jsval \<Rightarrow> jsval \<Rightarrow> (js_error + 'p provider) \<times> log_entry list" where
  "infura env network_arg apiKey =
     (let network = with_default network_arg (JStr (DEFAULT_NETWORK env))
      in case infura_try env network apiKey of
           ((None, provider), log) \<Rightarrow> (Inr provider, log)
         | ((Some err, provider), log) \<Rightarrow>
             (Inr provider, log @ [LogError (errors_infura_connect env) [network, apiKey] err]))"

text \<open>
  \<open>metamask\<close> returns from inside the \<^verbatim>\<open>try\<close> block when \<^verbatim>\<open>global.web3\<close> or its
  \<open>currentProvider\<close> is falsy; \<open>returned\<close> says so.
\<close>

definition metamask_try :: "'p providers_env \<Rightarrow> jsval \<Rightarrow> bool \<times> 'p try_result" where
  "metamask_try env network =
     (if \<not> truthy (global_web3 env)
      then (True, (None, EmptyObject), [Warn (warnings_metamask_notAvailable env)])
      else (case get_prop (global_web3 env) ''currentProvider'' of
              Inl e \<Rightarrow> (False, (Some e, EmptyObject), [])
            | Inr currentProvider \<Rightarrow>
                (if \<not> truthy currentProvider
                 then (True, (None, EmptyObject), [Warn (warnings_metamask_notAvailable env)])
                 else (case Web3Provider env [currentProvider, network] of
                         Inl e \<Rightarrow> (False, (Some e, EmptyObject), [New Web3 [currentProvider, network]])
                       | Inr p \<Rightarrow>
                           (False, (None, ProviderObject p), [New Web3 [currentProvider, network]])))))"

definition metamask :: "'p providers_env \<Rightarrow> jsval \<Rightarrow> (js_error + 'p provider) \<times> log_entry list" where
  "metamask env network_arg =
     (let network = with_default network_arg (JStr (DEFAULT_NETWORK env))
      in case metamask_try env network of
           (returned, (None, provider), log) \<Rightarrow> (Inr provider, log)
         | (returned, (Some err, provider), log) \<Rightarrow>
             (Inr provider, log @ [LogError (errors_metamask_connect env) [network] err]))"



section \<open>Example environments\<close>

text \<open>
  A device that answers every request, with the constants of the source's comments
  (mainnet chain id \<open>1\<close>, testnet coin type \<open>1\<close>) and of the spec (coin type \<open>60\<close>);
  the wallet instance is the record of the constructor's arguments. In
  \<open>unplugged_env\<close> the connection fails.
\<close>

definition example_ledger :: ledger_instance where
  "example_ledger = \<lparr> getAddress = (\<lambda>path display prompt. Inr \<lparr> publicKey = ''04ab'', chainCode = ''cd'' \<rparr>) \<rparr>"

definition example_env :: "wallet_args ledger_env" where
  "example_env =
     \<lparr> HOMESTEAD = 1, COIN_MAINNET = 60, COIN_TESTNET = 1,
       userExportGenericError = ''Could not export the public key'',
       userInputValidator = core_userInputValidator,
       derivationPathSerializer = core_derivationPathSerializer,
       ledgerConnection = Inr example_ledger,
       handleLedgerConnectionError = (\<lambda>caughtError specificMessage. Inr JUndefined),
       LedgerWallet = Inr \<rparr>"

definition unplugged_env :: "wallet_args ledger_env" where
  "unplugged_env = example_env \<lparr> ledgerConnection := Inl (JsError Error ''No device'') \<rparr>"

text \<open>
  Provider classes that throw on a network they do not know, whatever the api key; an
  instance is the record of its class and of the arguments it was built from. No wallet
  is injected in \<open>example_providers_env\<close>; one is in \<open>browser_env\<close>.
\<close>

definition known_network :: "jsval \<Rightarrow> bool" where
  "known_network network = (network = JStr ''homestead'' \<or> network = JStr ''ropsten'')"

definition example_providers_env :: "(provider_class \<times> jsval list) providers_env" where
  "example_providers_env =
     \<lparr> EtherscanProvider = (\<lambda>args. case args of
                                      network # _ \<Rightarrow> if known_network network then Inr (Etherscan, args)
                                                     else Inl (JsError Error ''invalid network'')
                                    | [] \<Rightarrow> Inl (JsError Error ''invalid network'')),
       InfuraProvider = (\<lambda>args. case args of
                                   network # _ \<Rightarrow> if known_network network then Inr (Infura, args)
                                                  else Inl (JsError Error ''invalid network'')
                                 | [] \<Rightarrow> Inl (JsError Error ''invalid network'')),
       Web3Provider = (\<lambda>args. case args of
                                 [currentProvider, network] \<Rightarrow>
                                    if known_network network then Inr (Web3, args)
                                    else Inl (JsError Error ''invalid network'')
                               | _ \<Rightarrow> Inl (JsError Error ''invalid network'')),
       JsonRpcProvider = (\<lambda>args. case args of
                                 [url, network] \<Rightarrow>
                                    if known_network network then Inr (JsonRpc, args)
                                    else Inl (JsError Error ''invalid network'')
                               | _ \<Rightarrow> Inl (JsError Error ''invalid network'')),
       DEFAULT_NETWORK = ''homestead'',
       LOCALPROVIDER_PROTOCOL = ''http'',
       LOCALPROVIDER_HOST = ''localhost'',
       LOCALPROVIDER_PORT = ''8545'',
       warnings_etherscan_apiKey = ''No Etherscan api key'',
       warnings_infura_apiKey = ''No Infura api key'',
       warnings_metamask_notAvailable = ''Metamask is not available'',
       errors_etherscan_connect = ''Could not connect to Etherscan'',
       errors_infura_connect = ''Could not connect to Infura'',
       errors_metamask_connect = ''Could not connect to Metamask'',
       errors_localhost_connect = ''Could not connect to the local provider'',
       global_web3 = JUndefined \<rparr>"

definition browser_env :: "(provider_class \<times> jsval list) providers_env" where
  "browser_env = example_providers_env \<lparr> global_web3 := JObj [(''currentProvider'', JObj [])] \<rparr>"

text \<open>
  In \<open>rethrowing_env\<close> the connection fails and the error handler throws an error
  of its own, carrying the message it was given. The classes of \<open>keyed_providers_env\<close>
  cannot be constructed without an api key.
\<close>

definition rethrowing_env :: "wallet_args ledger_env" where
  "rethrowing_env =
     unplugged_env \<lparr> handleLedgerConnectionError :=
                       (\<lambda>caughtError specificMessage. Inl (JsError Error specificMessage)) \<rparr>"



section \<open>Properties of \<open>open\<close>\<close>

lemmas example_simps =
  example_env_def example_ledger_def unplugged_env_def core_userInputValidator_def field_of_def
  core_derivationPathSerializer_def string_of_nat.simps digit_char_def with_default_def

lemmas open_defs =
  ledgerWallet_open_def destructure_arguments_def coinType_def open_try_def open_catch_def
  catch_message_def Let_def

subsection \<open>The shape of a run of \<open>open\<close>\<close>

lemma open_rejected_by_validator:
  "userInputValidator env (with_default argument (JObj [])) = Inl e \<Longrightarrow>
   ledgerWallet_open env argument = (Inl e, [EvValidate (with_default argument (JObj []))])"
  by (simp add: ledgerWallet_open_def)

lemma open_resolved_wallet:
  assumes "userInputValidator env (with_default argument (JObj [])) = Inr ()"
    and "destructure_arguments env (with_default argument (JObj [])) = Inr (addressCount, chainId)"
    and "derivationPathSerializer env (coinType env chainId) = Inr path"
    and "open_try env path addressCount chainId = (Inr w, calls)"
  shows "ledgerWallet_open env argument =
           (Inr (Wallet w),
            [EvValidate (with_default argument (JObj [])), EvSerialize (coinType env chainId)] @ calls)"
  using assms by (simp add: ledgerWallet_open_def)

lemma open_caught:
  assumes "userInputValidator env (with_default argument (JObj [])) = Inr ()"
    and "destructure_arguments env (with_default argument (JObj [])) = Inr (addressCount, chainId)"
    and "derivationPathSerializer env (coinType env chainId) = Inr path"
    and "open_try env path addressCount chainId = (Inl err, calls)"
  shows "ledgerWallet_open env argument =
           (case handleLedgerConnectionError env err (catch_message env path err) of
              Inl e \<Rightarrow> Inl e
            | Inr v \<Rightarrow> Inr (Handled v),
            [EvValidate (with_default argument (JObj [])), EvSerialize (coinType env chainId)]
              @ calls @ [EvHandleError err (catch_message env path err)])"
  using assms by (simp add: ledgerWallet_open_def open_catch_def Let_def)

lemma destructure_defined:
  "argumentObject \<noteq> JUndefined \<Longrightarrow> argumentObject \<noteq> JNull \<Longrightarrow>
   destructure_arguments env argumentObject =
     Inr (field_of argumentObject ''addressCount'',
          with_default (field_of argumentObject ''chainId'') (JNum (HOMESTEAD env)))"
  by (cases argumentObject) (simp_all add: destructure_arguments_def field_of_def)

lemma with_default_object: "with_default argument (JObj []) \<noteq> JUndefined"
  by (simp add: with_default_def)

lemma open_try_throws:
  "fst (open_try env path addressCount chainId) = Inl err \<longleftrightarrow>
     ledgerConnection env = Inl err
     \<or> (\<exists>ledger. ledgerConnection env = Inr ledger \<and> getAddress ledger path False True = Inl err)
     \<or> (\<exists>ledger response. ledgerConnection env = Inr ledger
           \<and> getAddress ledger path False True = Inr response
           \<and> LedgerWallet env \<lparr> args_publicKey = publicKey response,
                                 args_chainCode = chainCode response,
                                 args_rootDerivationPath = path,
                                 args_addressCount = addressCount,
                                 args_chainId = chainId \<rparr> = Inl err)"
  by (auto simp: open_try_def Let_def split: sum.splits)

text \<open>The outcome of \<open>open\<close>, step by step.\<close>

lemma open_outcome:
  "fst (ledgerWallet_open env argument) =
     (case userInputValidator env (with_default argument (JObj [])) of
        Inl e \<Rightarrow> Inl e
      | Inr _ \<Rightarrow>
          (case destructure_arguments env (with_default argument (JObj [])) of
             Inl e \<Rightarrow> Inl e
           | Inr (addressCount, chainId) \<Rightarrow>
               (case derivationPathSerializer env (coinType env chainId) of
                  Inl e \<Rightarrow> Inl e
                | Inr path \<Rightarrow>
                    (case fst (open_try env path addressCount chainId) of
                       Inr w \<Rightarrow> Inr (Wallet w)
                     | Inl err \<Rightarrow>
                         (case handleLedgerConnectionError env err (catch_message env path err) of
                            Inl e \<Rightarrow> Inl e
                          | Inr v \<Rightarrow> Inr (Handled v))))))"
  by (simp add: ledgerWallet_open_def open_catch_def Let_def split: sum.splits prod.splits)

subsection \<open>Validation comes before any I/O\<close>

text \<open>
  C7. In \<open>open\<close> the input is validated strictly before any I/O: whenever the validator
  throws, the promise rejects with that error at once, the validator's call is the only
  call made, and neither the device connection nor a \<open>getAddress\<close> request is started.
\<close>

theorem open_validates_before_io:
  assumes "userInputValidator env (with_default argument (JObj [])) = Inl e"
  shows "fst (ledgerWallet_open env argument) = Inl e
       \<and> snd (ledgerWallet_open env argument) = [EvValidate (with_default argument (JObj []))]
       \<and> EvConnect \<notin> set (snd (ledgerWallet_open env argument))
       \<and> EvGetAddress path display prompt \<notin> set (snd (ledgerWallet_open env argument))"
  using assms by (simp add: open_rejected_by_validator)

theorem open_validates_before_io_witness:
  "userInputValidator example_env (with_default (JObj [(''addressCount'', JStr ''three'')]) (JObj []))
     = Inl (JsError ValidationError ''addressCount'')
   \<and> ledgerWallet_open example_env (JObj [(''addressCount'', JStr ''three'')])
     = (Inl (JsError ValidationError ''addressCount''), [EvValidate (JObj [(''addressCount'', JStr ''three'')])])"
proof -
  have v: "userInputValidator example_env (with_default (JObj [(''addressCount'', JStr ''three'')]) (JObj []))
     = Inl (JsError ValidationError ''addressCount'')"
    by (simp add: example_simps)
  from open_validates_before_io [OF v, of "''''" False False] v show ?thesis
    by (simp add: prod_eq_iff with_default_def)
qed

subsection \<open>A missing \<open>addressCount\<close>\<close>

text \<open>
  C1 as stated does not hold. \<open>open\<close> hands the validator the argument object and
  nothing else (no list of required fields), its parameter defaults to the empty object,
  and the validator's contract makes \<open>addressCount\<close> optional: on the empty
  configuration validation succeeds and the device connection is made.
\<close>

theorem open_missing_addressCount_counterexample:
  "field_of (JObj []) ''addressCount'' = JUndefined
   \<and> userInputValidator example_env (JObj []) = Inr ()
   \<and> fst (ledgerWallet_open example_env (JObj [])) \<noteq> Inl (JsError ValidationError ''addressCount'')
   \<and> EvConnect \<in> set (snd (ledgerWallet_open example_env (JObj [])))"
  by (simp add: example_simps open_defs)

text \<open>
  C1, amended. With the validator of the spec's contract: for a configuration object
  whose \<open>addressCount\<close> is missing or undefined (and whose \<open>chainId\<close> is missing or
  a positive integer), validation does not fail; and when the serializer returns the
  root path, the next call of \<open>open\<close> is the device connection.
\<close>

theorem open_missing_addressCount_accepted:
  assumes "userInputValidator env = core_userInputValidator"
    and "is_object argument"
    and "field_of argument ''addressCount'' = JUndefined"
    and "field_of argument ''chainId'' = JUndefined \<or> is_positive_integer (field_of argument ''chainId'')"
    and "derivationPathSerializer env
           (coinType env (with_default (field_of argument ''chainId'') (JNum (HOMESTEAD env)))) = Inr path"
  shows "userInputValidator env argument = Inr ()
       \<and> take 3 (snd (ledgerWallet_open env argument)) =
           [EvValidate argument,
            EvSerialize (coinType env (with_default (field_of argument ''chainId'') (JNum (HOMESTEAD env)))),
            EvConnect]"
proof -
  let ?cid = "with_default (field_of argument ''chainId'') (JNum (HOMESTEAD env))"
  from assms(2) obtain ps where arg: "argument = JObj ps" by (cases argument) simp_all
  then have wd: "with_default argument (JObj []) = argument" by (simp add: with_default_def)
  have d: "destructure_arguments env (with_default argument (JObj [])) =
             Inr (field_of argument ''addressCount'', ?cid)"
    using arg wd by (simp add: destructure_defined)
  have v: "userInputValidator env argument = Inr ()"
    using assms(1,2,3,4) by (auto simp: core_userInputValidator_def)
  then have v': "userInputValidator env (with_default argument (JObj [])) = Inr ()"
    by (simp add: wd)
  obtain r calls where t: "open_try env path (field_of argument ''addressCount'') ?cid = (r, calls)"
    by (cases "open_try env path (field_of argument ''addressCount'') ?cid")
  have "\<exists>rest. calls = EvConnect # rest"
    using t by (auto simp: open_try_def Let_def split: sum.splits)
  then obtain rest where c: "calls = EvConnect # rest" ..
  have "take 3 (snd (ledgerWallet_open env argument)) =
          [EvValidate argument, EvSerialize (coinType env ?cid), EvConnect]"
  proof (cases r)
    case (Inl err)
    with open_caught [OF v' d assms(5)] t wd c show ?thesis by simp
  next
    case (Inr w)
    with open_resolved_wallet [OF v' d assms(5)] t wd c show ?thesis by simp
  qed
  with v show ?thesis by simp
qed

theorem open_missing_addressCount_accepted_witness:
  "userInputValidator example_env (JObj [(''chainId'', JNum 3)]) = Inr ()
   \<and> take 3 (snd (ledgerWallet_open example_env (JObj [(''chainId'', JNum 3)])))
       = [EvValidate (JObj [(''chainId'', JNum 3)]), EvSerialize 1, EvConnect]"
proof -
  let ?arg = "JObj [(''chainId'', JNum 3)]"
  have 1: "userInputValidator example_env = core_userInputValidator"
    by (simp add: example_env_def)
  have 2: "is_object ?arg" by simp
  have 3: "field_of ?arg ''addressCount'' = JUndefined" by (simp add: field_of_def)
  have 4: "field_of ?arg ''chainId'' = JUndefined \<or> is_positive_integer (field_of ?arg ''chainId'')"
    by (simp add: field_of_def)
  have 5: "derivationPathSerializer example_env
             (coinType example_env (with_default (field_of ?arg ''chainId'')
                                                 (JNum (HOMESTEAD example_env))))
           = Inr (''m/44'' @ [CHR 0x27] @ ''/1'' @ [CHR 0x27] @ ''/0'' @ [CHR 0x27])"
    by (simp add: example_simps coinType_def)
  from open_missing_addressCount_accepted [OF 1 2 3 4 5] show ?thesis
    by (simp add: example_simps coinType_def)
qed

subsection \<open>The coin type\<close>

text \<open>
  C2. For every configuration that \<open>open\<close> validates and destructures, the coin type
  is a binary mapping on the chain id: the mainnet coin constant when \<open>chainId\<close> is
  strictly equal to the mainnet (homestead) network id, the testnet coin constant for
  every other value. The second call of the run is the serializer's, on that coin type.
\<close>

theorem open_coinType_binary:
  assumes "userInputValidator env (with_default argument (JObj [])) = Inr ()"
    and "destructure_arguments env (with_default argument (JObj [])) = Inr (addressCount, chainId)"
  shows "coinType env chainId = (if chainId = JNum (HOMESTEAD env) then COIN_MAINNET env else COIN_TESTNET env)
       \<and> take 2 (snd (ledgerWallet_open env argument)) =
           [EvValidate (with_default argument (JObj [])),
            EvSerialize (if chainId = JNum (HOMESTEAD env) then COIN_MAINNET env else COIN_TESTNET env)]"
proof -
  have "take 2 (snd (ledgerWallet_open env argument)) =
           [EvValidate (with_default argument (JObj [])), EvSerialize (coinType env chainId)]"
    using assms
    by (simp add: ledgerWallet_open_def open_catch_def Let_def split: sum.splits prod.splits)
  then show ?thesis by (simp add: coinType_def)
qed

theorem open_coinType_binary_witness:
  "take 2 (snd (ledgerWallet_open example_env (JObj [(''chainId'', JNum 1)])))
     = [EvValidate (JObj [(''chainId'', JNum 1)]), EvSerialize 60]
   \<and> take 2 (snd (ledgerWallet_open example_env (JObj [(''chainId'', JNum 3)])))
     = [EvValidate (JObj [(''chainId'', JNum 3)]), EvSerialize 1]"
proof -
  have v1: "userInputValidator example_env (with_default (JObj [(''chainId'', JNum 1)]) (JObj [])) = Inr ()"
    by (simp add: example_simps)
  have d1: "destructure_arguments example_env (with_default (JObj [(''chainId'', JNum 1)]) (JObj []))
              = Inr (JUndefined, JNum 1)"
    by (simp add: example_simps destructure_arguments_def)
  have v3: "userInputValidator example_env (with_default (JObj [(''chainId'', JNum 3)]) (JObj [])) = Inr ()"
    by (simp add: example_simps)
  have d3: "destructure_arguments example_env (with_default (JObj [(''chainId'', JNum 3)]) (JObj []))
              = Inr (JUndefined, JNum 3)"
    by (simp add: example_simps destructure_arguments_def)
  from open_coinType_binary [OF v1 d1] open_coinType_binary [OF v3 d3] show ?thesis
    by (simp add: example_env_def with_default_def)
qed

subsection \<open>The default chain id\<close>

text \<open>
  C8. When the configuration has no \<open>chainId\<close>, \<open>open\<close> uses the mainnet (homestead)
  network id: the root path is serialized from the mainnet coin type, and the wallet is
  constructed with \<open>chainId\<close> the mainnet id, which is the chain id the wallet of the
  spec's data model keeps.
\<close>

theorem open_default_chainId:
  assumes "userInputValidator env (with_default argument (JObj [])) = Inr ()"
    and "get_prop (with_default argument (JObj [])) ''addressCount'' = Inr addressCount"
    and "get_prop (with_default argument (JObj [])) ''chainId'' = Inr JUndefined"
    and "derivationPathSerializer env (COIN_MAINNET env) = Inr path"
    and "ledgerConnection env = Inr ledger"
    and "getAddress ledger path False True = Inr response"
    and "LedgerWallet env \<lparr> args_publicKey = publicKey response,
                             args_chainCode = chainCode response,
                             args_rootDerivationPath = path,
                             args_addressCount = addressCount,
                             args_chainId = JNum (HOMESTEAD env) \<rparr> = Inr w"
  shows "ledgerWallet_open env argument =
           (Inr (Wallet w),
            [EvValidate (with_default argument (JObj [])),
             EvSerialize (COIN_MAINNET env),
             EvConnect,
             EvGetAddress path False True,
             EvConstruct \<lparr> args_publicKey = publicKey response,
                            args_chainCode = chainCode response,
                            args_rootDerivationPath = path,
                            args_addressCount = addressCount,
                            args_chainId = JNum (HOMESTEAD env) \<rparr>])
       \<and> wallet_chainId (LedgerWallet_class derive (publicKey response) (chainCode response) path n
                           (JNum (HOMESTEAD env))) = JNum (HOMESTEAD env)"
proof -
  have d: "destructure_arguments env (with_default argument (JObj [])) = Inr (addressCount, JNum (HOMESTEAD env))"
    using assms(2,3) by (simp add: destructure_arguments_def with_default_def)
  have c: "coinType env (JNum (HOMESTEAD env)) = COIN_MAINNET env"
    by (simp add: coinType_def)
  have t: "open_try env path addressCount (JNum (HOMESTEAD env)) =
             (Inr w, [EvConnect, EvGetAddress path False True,
                      EvConstruct \<lparr> args_publicKey = publicKey response,
                            args_chainCode = chainCode response,
                            args_rootDerivationPath = path,
                            args_addressCount = addressCount,
                            args_chainId = JNum (HOMESTEAD env) \<rparr>])"
    using assms(5,6,7) by (simp add: open_try_def Let_def)
  from open_resolved_wallet [OF assms(1) d, of path w] assms(4) c t
  show ?thesis by (simp add: LedgerWallet_class_def)
qed

theorem open_default_chainId_witness:
  "fst (ledgerWallet_open example_env (JObj [(''addressCount'', JNum 2)]))
     = Inr (Wallet \<lparr> args_publicKey = ''04ab'', args_chainCode = ''cd'',
                     args_rootDerivationPath = ''m/44'' @ [CHR 0x27] @ ''/60'' @ [CHR 0x27] @ ''/0'' @ [CHR 0x27],
                     args_addressCount = JNum 2, args_chainId = JNum 1 \<rparr>)
   \<and> EvSerialize 60 \<in> set (snd (ledgerWallet_open example_env (JObj [(''addressCount'', JNum 2)])))"
proof -
  let ?arg = "JObj [(''addressCount'', JNum 2)]"
  let ?path = "''m/44'' @ [CHR 0x27] @ ''/60'' @ [CHR 0x27] @ ''/0'' @ [CHR 0x27]"
  let ?resp = "\<lparr> publicKey = ''04ab'', chainCode = ''cd'' \<rparr>"
  have 1: "userInputValidator example_env (with_default ?arg (JObj [])) = Inr ()"
    by (simp add: example_simps)
  have 2: "get_prop (with_default ?arg (JObj [])) ''addressCount'' = Inr (JNum 2)"
    by (simp add: with_default_def)
  have 3: "get_prop (with_default ?arg (JObj [])) ''chainId'' = Inr JUndefined"
    by (simp add: with_default_def)
  have 4: "derivationPathSerializer example_env (COIN_MAINNET example_env) = Inr ?path"
    by (simp add: example_simps)
  have 5: "ledgerConnection example_env = Inr example_ledger"
    by (simp add: example_env_def)
  have 6: "getAddress example_ledger ?path False True = Inr ?resp"
    by (simp add: example_ledger_def)
  have 7: "LedgerWallet example_env \<lparr> args_publicKey = publicKey ?resp,
                             args_chainCode = chainCode ?resp,
                             args_rootDerivationPath = ?path,
                             args_addressCount = JNum 2,
                             args_chainId = JNum (HOMESTEAD example_env) \<rparr>
            = Inr \<lparr> args_publicKey = ''04ab'', args_chainCode = ''cd'',
                     args_rootDerivationPath = ?path,
                     args_addressCount = JNum 2, args_chainId = JNum 1 \<rparr>"
    by (simp add: example_env_def)
  from open_default_chainId [OF 1 2 3 4 5 6 7, of "\<lambda>pk cc p. p" 0] show ?thesis
    by (simp add: example_env_def)
qed

subsection \<open>Errors of the connection and of the address request\<close>

text \<open>
  C5. After validation succeeds, an error thrown by the device connection or by the
  \<open>getAddress\<close> request is caught by \<open>open\<close>: the handler is called, last, with the
  error and with a message made of the generic export message, the root derivation path
  and the error's own message; no wallet is constructed; and the outcome of \<open>open\<close> is
  the handler's outcome, not the raw error's.
\<close>

theorem open_connection_errors_handled:
  assumes "userInputValidator env (with_default argument (JObj [])) = Inr ()"
    and "destructure_arguments env (with_default argument (JObj [])) = Inr (addressCount, chainId)"
    and "derivationPathSerializer env (coinType env chainId) = Inr path"
    and "ledgerConnection env = Inl err
         \<or> (\<exists>ledger. ledgerConnection env = Inr ledger \<and> getAddress ledger path False True = Inl err)"
  shows "fst (ledgerWallet_open env argument) =
           (case handleLedgerConnectionError env err
                   (userExportGenericError env @ '': '' @ path @ '' '' @ message err) of
              Inl e \<Rightarrow> Inl e
            | Inr v \<Rightarrow> Inr (Handled v))
       \<and> last (snd (ledgerWallet_open env argument)) =
           EvHandleError err (userExportGenericError env @ '': '' @ path @ '' '' @ message err)
       \<and> (\<forall>args. EvConstruct args \<notin> set (snd (ledgerWallet_open env argument)))"
proof -
  from assms(4) obtain calls where
    t: "open_try env path addressCount chainId = (Inl err, calls)"
    and c: "\<forall>args. EvConstruct args \<notin> set calls"
    by (auto simp: open_try_def)
  from open_caught [OF assms(1,2,3) t] c show ?thesis
    by (simp add: catch_message_def)
qed

theorem open_connection_errors_handled_witness:
  "ledgerWallet_open unplugged_env (JObj [(''addressCount'', JNum 2)]) =
     (Inr (Handled JUndefined),
      [EvValidate (JObj [(''addressCount'', JNum 2)]), EvSerialize 60, EvConnect,
       EvHandleError (JsError Error ''No device'')
         (''Could not export the public key: m/44'' @ [CHR 0x27] @ ''/60'' @ [CHR 0x27] @ ''/0''
            @ [CHR 0x27] @ '' No device'')])"
proof -
  let ?arg = "JObj [(''addressCount'', JNum 2)]"
  let ?path = "''m/44'' @ [CHR 0x27] @ ''/60'' @ [CHR 0x27] @ ''/0'' @ [CHR 0x27]"
  have 1: "userInputValidator unplugged_env (with_default ?arg (JObj [])) = Inr ()"
    by (simp add: example_simps)
  have 2: "destructure_arguments unplugged_env (with_default ?arg (JObj [])) = Inr (JNum 2, JNum 1)"
    by (simp add: example_simps destructure_arguments_def)
  have 3: "derivationPathSerializer unplugged_env (coinType unplugged_env (JNum 1)) = Inr ?path"
    by (simp add: example_simps coinType_def)
  have 4: "ledgerConnection unplugged_env = Inl (JsError Error ''No device'')
         \<or> (\<exists>ledger. ledgerConnection unplugged_env = Inr ledger
               \<and> getAddress ledger ?path False True = Inl (JsError Error ''No device''))"
    by (simp add: example_simps)
  have r: "snd (ledgerWallet_open unplugged_env ?arg) =
            [EvValidate ?arg, EvSerialize 60, EvConnect,
             EvHandleError (JsError Error ''No device'')
               (''Could not export the public key: m/44'' @ [CHR 0x27] @ ''/60'' @ [CHR 0x27] @ ''/0''
                 @ [CHR 0x27] @ '' No device'')]"
    by (simp add: example_simps open_defs)
  from open_connection_errors_handled [OF 1 2 3 4] r show ?thesis
    by (simp add: example_simps prod_eq_iff)
qed

subsection \<open>When the promise rejects\<close>

text \<open>
  C10 as stated does not hold: the promise can reject after validation has succeeded.
  The \<^verbatim>\<open>catch\<close> block returns what the handler gives, so an error the handler throws
  rejects the promise; here the connection fails, the handler throws, and \<open>open\<close>
  rejects with the handler's error although the validator returned.
\<close>

theorem open_rejects_after_validation_counterexample:
  "userInputValidator rethrowing_env (with_default (JObj [(''addressCount'', JNum 2)]) (JObj [])) = Inr ()
   \<and> fst (ledgerWallet_open rethrowing_env (JObj [(''addressCount'', JNum 2)]))
       = Inl (JsError Error
               (''Could not export the public key: m/44'' @ [CHR 0x27] @ ''/60'' @ [CHR 0x27]
                  @ ''/0'' @ [CHR 0x27] @ '' No device''))"
  by (simp add: rethrowing_env_def example_simps open_defs)

text \<open>
  C10, amended. The promise rejects with an error exactly when the validator threw it,
  or, validation having succeeded, when the destructuring of the argument or the path
  serializer threw it (both run before the \<^verbatim>\<open>try\<close> block), or when a step of the
  \<^verbatim>\<open>try\<close> block (the connection, \<open>getAddress\<close>, the wallet's construction) threw
  and the handler, called on what was caught, threw it. Everything thrown inside the
  \<^verbatim>\<open>try\<close> block is caught: when the handler returns a value, the promise resolves
  with that value.
\<close>

theorem open_rejections:
  "((fst (ledgerWallet_open env argument) = Inl e) =
      (userInputValidator env (with_default argument (JObj [])) = Inl e
       \<or> userInputValidator env (with_default argument (JObj [])) = Inr ()
          \<and> (destructure_arguments env (with_default argument (JObj [])) = Inl e
             \<or> (\<exists>addressCount chainId.
                   destructure_arguments env (with_default argument (JObj [])) = Inr (addressCount, chainId)
                   \<and> (derivationPathSerializer env (coinType env chainId) = Inl e
                      \<or> (\<exists>path err.
                            derivationPathSerializer env (coinType env chainId) = Inr path
                            \<and> (ledgerConnection env = Inl err
                               \<or> (\<exists>ledger. ledgerConnection env = Inr ledger
                                     \<and> getAddress ledger path False True = Inl err)
                               \<or> (\<exists>ledger response. ledgerConnection env = Inr ledger
                                     \<and> getAddress ledger path False True = Inr response
                                     \<and> LedgerWallet env
                                          \<lparr> args_publicKey = publicKey response,
                                            args_chainCode = chainCode response,
                                            args_rootDerivationPath = path,
                                            args_addressCount = addressCount,
                                            args_chainId = chainId \<rparr> = Inl err))
                            \<and> handleLedgerConnectionError env err (catch_message env path err)
                                = Inl e))))))
   \<and> (userInputValidator env (with_default argument (JObj [])) = Inr ()
        \<and> destructure_arguments env (with_default argument (JObj [])) = Inr (ac, cid)
        \<and> derivationPathSerializer env (coinType env cid) = Inr root
        \<and> (ledgerConnection env = Inl caught
           \<or> (\<exists>ledger. ledgerConnection env = Inr ledger
                 \<and> getAddress ledger root False True = Inl caught)
           \<or> (\<exists>ledger response. ledgerConnection env = Inr ledger
                 \<and> getAddress ledger root False True = Inr response
                 \<and> LedgerWallet env
                      \<lparr> args_publicKey = publicKey response,
                        args_chainCode = chainCode response,
                        args_rootDerivationPath = root,
                        args_addressCount = ac,
                        args_chainId = cid \<rparr> = Inl caught))
        \<and> handleLedgerConnectionError env caught (catch_message env root caught) = Inr v
      \<longrightarrow> fst (ledgerWallet_open env argument) = Inr (Handled v))"
proof (intro conjI impI)
  let ?a = "with_default argument (JObj [])"
  show "(fst (ledgerWallet_open env argument) = Inl e) =
      (userInputValidator env ?a = Inl e
       \<or> userInputValidator env ?a = Inr ()
          \<and> (destructure_arguments env ?a = Inl e
             \<or> (\<exists>addressCount chainId.
                   destructure_arguments env ?a = Inr (addressCount, chainId)
                   \<and> (derivationPathSerializer env (coinType env chainId) = Inl e
                      \<or> (\<exists>path err.
                            derivationPathSerializer env (coinType env chainId) = Inr path
                            \<and> (ledgerConnection env = Inl err
                               \<or> (\<exists>ledger. ledgerConnection env = Inr ledger
                                     \<and> getAddress ledger path False True = Inl err)
                               \<or> (\<exists>ledger response. ledgerConnection env = Inr ledger
                                     \<and> getAddress ledger path False True = Inr response
                                     \<and> LedgerWallet env
                                          \<lparr> args_publicKey = publicKey response,
                                            args_chainCode = chainCode response,
                                            args_rootDerivationPath = path,
                                            args_addressCount = addressCount,
                                            args_chainId = chainId \<rparr> = Inl err))
                            \<and> handleLedgerConnectionError env err (catch_message env path err)
                                = Inl e)))))"
    unfolding open_outcome open_try_throws [symmetric]
    by (auto split: sum.splits prod.splits)
next
  assume a: "userInputValidator env (with_default argument (JObj [])) = Inr ()
        \<and> destructure_arguments env (with_default argument (JObj [])) = Inr (ac, cid)
        \<and> derivationPathSerializer env (coinType env cid) = Inr root
        \<and> (ledgerConnection env = Inl caught
           \<or> (\<exists>ledger. ledgerConnection env = Inr ledger
                 \<and> getAddress ledger root False True = Inl caught)
           \<or> (\<exists>ledger response. ledgerConnection env = Inr ledger
                 \<and> getAddress ledger root False True = Inr response
                 \<and> LedgerWallet env
                      \<lparr> args_publicKey = publicKey response,
                        args_chainCode = chainCode response,
                        args_rootDerivationPath = root,
                        args_addressCount = ac,
                        args_chainId = cid \<rparr> = Inl caught))
        \<and> handleLedgerConnectionError env caught (catch_message env root caught) = Inr v"
  then have "fst (open_try env root ac cid) = Inl caught"
    by (simp add: open_try_throws)
  with a show "fst (ledgerWallet_open env argument) = Inr (Handled v)"
    by (simp add: open_outcome)
qed

theorem open_rejections_witness:
  "fst (ledgerWallet_open unplugged_env (JObj [(''addressCount'', JNum 2)])) = Inr (Handled JUndefined)
   \<and> fst (ledgerWallet_open rethrowing_env (JObj [(''addressCount'', JNum (- 2))]))
       = Inl (JsError ValidationError ''addressCount'')"
proof -
  let ?arg = "JObj [(''addressCount'', JNum 2)]"
  let ?bad = "JObj [(''addressCount'', JNum (- 2))]"
  let ?path = "''m/44'' @ [CHR 0x27] @ ''/60'' @ [CHR 0x27] @ ''/0'' @ [CHR 0x27]"
  have 1: "userInputValidator unplugged_env (with_default ?arg (JObj [])) = Inr ()
         \<and> destructure_arguments unplugged_env (with_default ?arg (JObj [])) = Inr (JNum 2, JNum 1)
         \<and> derivationPathSerializer unplugged_env (coinType unplugged_env (JNum 1)) = Inr ?path
         \<and> ledgerConnection unplugged_env = Inl (JsError Error ''No device'')
         \<and> handleLedgerConnectionError unplugged_env (JsError Error ''No device'')
              (catch_message unplugged_env ?path (JsError Error ''No device'')) = Inr JUndefined"
    by (simp add: example_simps destructure_arguments_def coinType_def)
  from open_rejections [of unplugged_env ?arg _ "JNum 2" "JNum 1" ?path "JsError Error ''No device''" JUndefined] 1
  have a: "fst (ledgerWallet_open unplugged_env ?arg) = Inr (Handled JUndefined)"
    by blast
  have v: "userInputValidator rethrowing_env (with_default ?bad (JObj []))
             = Inl (JsError ValidationError ''addressCount'')"
    by (simp add: rethrowing_env_def example_simps)
  from open_rejections [of rethrowing_env ?bad "JsError ValidationError ''addressCount''"] v
  have b: "fst (ledgerWallet_open rethrowing_env ?bad) = Inl (JsError ValidationError ''addressCount'')"
    by blast
  from a b show ?thesis by simp
qed

section \<open>Properties of the provider constructors\<close>

lemmas provider_example_simps =
  example_providers_env_def browser_env_def known_network_def with_default_def field_of_def

lemma truthy_get_prop: "truthy v \<Longrightarrow> get_prop v k = Inr (field_of v k)"
  by (cases v) (simp_all add: field_of_def)

subsection \<open>A construction that throws\<close>




text \<open>
  In general: when the construction with the api key returns and the one without it
  throws, \<open>etherscan\<close> returns the provider built with the key.
\<close>

lemma etherscan_keeps_keyed_provider:
  assumes "truthy apiKey"
    and "EtherscanProvider env [with_default network (JStr (DEFAULT_NETWORK env)), apiKey] = Inr keyed"
    and "EtherscanProvider env [with_default network (JStr (DEFAULT_NETWORK env))] = Inl err"
  shows "fst (etherscan env network apiKey) = Inr (ProviderObject keyed)"
  using assms by (simp add: etherscan_def etherscan_try_def Let_def)

subsection \<open>No injected wallet\<close>

text \<open>
  C4. When \<^verbatim>\<open>global.web3\<close> or its \<open>currentProvider\<close> is missing (falsy),
  \<open>metamask\<close> logs exactly one warning, the "not available" one, returns the empty
  object, and constructs no \<open>Web3Provider\<close>.
\<close>

theorem metamask_not_available:
  assumes "\<not> truthy (global_web3 env) \<or> \<not> truthy (field_of (global_web3 env) ''currentProvider'')"
  shows "metamask env network = (Inr EmptyObject, [Warn (warnings_metamask_notAvailable env)])
       \<and> New Web3 args \<notin> set (snd (metamask env network))
       \<and> length (filter (\<lambda>entry. entry = Warn (warnings_metamask_notAvailable env))
                         (snd (metamask env network))) = 1"
proof -
  have "metamask env network = (Inr EmptyObject, [Warn (warnings_metamask_notAvailable env)])"
  proof (cases "truthy (global_web3 env)")
    case False
    then show ?thesis by (simp add: metamask_def metamask_try_def Let_def)
  next
    case True
    with assms have "\<not> truthy (field_of (global_web3 env) ''currentProvider'')" by simp
    with True show ?thesis
      by (simp add: metamask_def metamask_try_def Let_def truthy_get_prop)
  qed
  then show ?thesis by simp
qed

theorem metamask_not_available_witness:
  "metamask example_providers_env JUndefined = (Inr EmptyObject, [Warn ''Metamask is not available''])"
proof -
  have "\<not> truthy (global_web3 example_providers_env)
        \<or> \<not> truthy (field_of (global_web3 example_providers_env) ''currentProvider'')"
    by (simp add: example_providers_env_def)
  from metamask_not_available [OF this, of JUndefined "[]"] show ?thesis
    by (simp add: example_providers_env_def)
qed

subsection \<open>The api key\<close>

text \<open>
  C9. In \<open>etherscan\<close> and in \<open>infura\<close>, when a truthy api key is supplied and no
  construction throws, the missing-api-key warning is logged all the same and the
  provider returned is the one constructed from the network alone: the provider built
  with the key is overwritten, and the key does not reach the result.
\<close>

theorem apiKey_never_reaches_provider:
  "(truthy apiKey
      \<and> EtherscanProvider env [with_default network (JStr (DEFAULT_NETWORK env)), apiKey] = Inr keyed
      \<and> EtherscanProvider env [with_default network (JStr (DEFAULT_NETWORK env))] = Inr keyless
    \<longrightarrow> etherscan env network apiKey =
          (Inr (ProviderObject keyless),
           [New Etherscan [with_default network (JStr (DEFAULT_NETWORK env)), apiKey],
            Warn (warnings_etherscan_apiKey env),
            New Etherscan [with_default network (JStr (DEFAULT_NETWORK env))]]))
 \<and> (truthy apiKey
      \<and> InfuraProvider env [with_default network (JStr (DEFAULT_NETWORK env)), apiKey] = Inr keyed
      \<and> InfuraProvider env [with_default network (JStr (DEFAULT_NETWORK env))] = Inr keyless
    \<longrightarrow> infura env network apiKey =
          (Inr (ProviderObject keyless),
           [New Infura [with_default network (JStr (DEFAULT_NETWORK env)), apiKey],
            Warn (warnings_infura_apiKey env),
            New Infura [with_default network (JStr (DEFAULT_NETWORK env))]]))"
  by (simp add: etherscan_def etherscan_try_def infura_def infura_try_def Let_def)

theorem apiKey_never_reaches_provider_witness:
  "etherscan example_providers_env JUndefined (JStr ''key'') =
     (Inr (ProviderObject (Etherscan, [JStr ''homestead''])),
      [New Etherscan [JStr ''homestead'', JStr ''key''], Warn ''No Etherscan api key'',
       New Etherscan [JStr ''homestead'']])
 \<and> infura example_providers_env JUndefined (JStr ''key'') =
     (Inr (ProviderObject (Infura, [JStr ''homestead''])),
      [New Infura [JStr ''homestead'', JStr ''key''], Warn ''No Infura api key'',
       New Infura [JStr ''homestead'']])"
  using apiKey_never_reaches_provider
          [where apiKey = "JStr ''key''" and env = example_providers_env and network = JUndefined
             and keyed = "(Etherscan, [JStr ''homestead'', JStr ''key''])"
             and keyless = "(Etherscan, [JStr ''homestead''])"]
        apiKey_never_reaches_provider
          [where apiKey = "JStr ''key''" and env = example_providers_env and network = JUndefined
             and keyed = "(Infura, [JStr ''homestead'', JStr ''key''])"
             and keyless = "(Infura, [JStr ''homestead''])"]
  by (simp add: provider_example_simps)

section \<open>Properties of the wallet constructor\<close>

lemma derive_addresses_map:
  "derive_addresses derive pk cc root i n = map (derive_address derive pk cc root) [i..<n]"
proof (induction derive pk cc root i n rule: derive_addresses.induct)
  case (1 derive pk cc root i n)
  show ?case
  proof (cases "i < n")
    case True
    with "1" show ?thesis
      by (subst derive_addresses.simps) (simp add: upt_conv_Cons)
  next
    case False
    then show ?thesis
      by (subst derive_addresses.simps) simp
  qed
qed

text \<open>
  C6. From a public key, a chain code, a root derivation path and an address count
  \<open>n\<close>, the wallet constructor derives exactly \<open>n\<close> addresses, at the child indices
  \<open>0\<close> to \<open>n - 1\<close> in that order, the address of index \<open>i\<close> from the path
  \<^verbatim>\<open>rootDerivationPath/0/i\<close>; the sequence is a function of these inputs alone, so two
  constructions from the same inputs give the same addresses.
\<close>

theorem wallet_addresses_in_index_order:
  "wallet_addresses (LedgerWallet_class derive pk cc root n chainId)
     = map (derive_address derive pk cc root) [0..<n]
 \<and> length (wallet_addresses (LedgerWallet_class derive pk cc root n chainId)) = n
 \<and> map address_index (wallet_addresses (LedgerWallet_class derive pk cc root n chainId)) = [0..<n]
 \<and> (\<forall>i<n. address_path (wallet_addresses (LedgerWallet_class derive pk cc root n chainId) ! i)
              = root @ ''/0/'' @ string_of_nat i
          \<and> address_value (wallet_addresses (LedgerWallet_class derive pk cc root n chainId) ! i)
              = derive pk cc (root @ ''/0/'' @ string_of_nat i))
 \<and> wallet_addresses (LedgerWallet_class derive pk cc root n chainId')
     = wallet_addresses (LedgerWallet_class derive pk cc root n chainId)"
proof -
  have a: "wallet_addresses (LedgerWallet_class derive pk cc root n c)
             = map (derive_address derive pk cc root) [0..<n]" for c
    by (simp add: LedgerWallet_class_def derive_addresses_map)
  have i: "map (address_index \<circ> derive_address derive pk cc root) [0..<n] = [0..<n]"
    by (rule nth_equalityI) (simp_all add: derive_address_def Let_def)
  show ?thesis
    by (simp add: a i) (simp add: derive_address_def Let_def)
qed

theorem wallet_addresses_in_index_order_witness:
  "map address_index
     (wallet_addresses (LedgerWallet_class (\<lambda>pk cc path. pk @ cc @ path) ''04ab'' ''cd'' ''m'' 3 (JNum 1)))
     = [0, 1, 2]
 \<and> address_path
     (wallet_addresses (LedgerWallet_class (\<lambda>pk cc path. pk @ cc @ path) ''04ab'' ''cd'' ''m'' 3 (JNum 1)) ! 2)
     = ''m/0/2''"
proof -
  let ?w = "wallet_addresses (LedgerWallet_class (\<lambda>pk cc path. pk @ cc @ path) ''04ab'' ''cd'' ''m'' 3 (JNum 1))"
  note claim = wallet_addresses_in_index_order
         [of "\<lambda>pk cc path. pk @ cc @ path" "''04ab''" "''cd''" "''m''" 3 "JNum 1" "JNum 1"]
  from claim have "map address_index ?w = [0..<3]" by blast
  moreover have "[0..<3] = [0, 1, 2::nat]" by code_simp
  ultimately have a: "map address_index ?w = [0, 1, 2]" by simp
  have "(2::nat) < 3" by simp
  with claim have "address_path (?w ! 2) = ''m'' @ ''/0/'' @ string_of_nat 2" by blast
  then have b: "address_path (?w ! 2) = ''m/0/2''"
    by (simp add: string_of_nat.simps digit_char_def)
  from a b show ?thesis by simp
qed

end
